theory Spec2Isabelle
  imports Complex_Main
begin

section \<open>Python values seen by the metric base class\<close>

text \<open>
  The module \<^verbatim>\<open>volkscv/metrics/classification/base.py\<close> defines the abstract class
  \<^verbatim>\<open>BaseMetric\<close>: four static validation helpers, the validating body of \<^verbatim>\<open>compute\<close>,
  the constructor and the \<^verbatim>\<open>__call__\<close> wrapper. The helpers are written with
  \<^verbatim>\<open>assert\<close>; the model is the default interpreter mode, in which a failed assertion
  raises \<^verbatim>\<open>AssertionError\<close> with the message of the statement.
\<close>

subsection \<open>Classes\<close>

text \<open>
  A class is its qualified name together with its direct base classes. The comparison
  \<^verbatim>\<open>type(x) == np.ndarray\<close> is identity of classes, modelled as equality of these
  values; \<open>issubclass\<close> follows the base classes.
\<close>

datatype pyclass = Class string "pyclass list"

fun issubclass :: "pyclass \<Rightarrow> pyclass \<Rightarrow> bool" where
  "issubclass (Class n bs) d = (Class n bs = d \<or> list_ex (\<lambda>b. issubclass b d) bs)"

definition object_cls :: pyclass where
  "object_cls = Class ''object'' []"

definition ndarray_cls :: pyclass where
  "ndarray_cls = Class ''numpy.ndarray'' [object_cls]"

definition matrix_cls :: pyclass where
  "matrix_cls = Class ''numpy.matrix'' [ndarray_cls]"

definition list_cls :: pyclass where
  "list_cls = Class ''list'' [object_cls]"

subsection \<open>Array elements\<close>

text \<open>
  An element of a numeric array is a number or the IEEE not-a-number. Finite floating
  point values and integers are rationals, and their comparisons are exact. Every
  comparison with not-a-number is false, as in numpy. Sums are taken exactly: the
  rounding of floating point addition is not part of the model.
\<close>

datatype elem = Num rat | NaN

fun np_le :: "elem \<Rightarrow> elem \<Rightarrow> bool" where
  "np_le (Num a) (Num b) = (a \<le> b)"
| "np_le _ _ = False"


fun np_add :: "elem \<Rightarrow> elem \<Rightarrow> elem" where
  "np_add (Num a) (Num b) = Num (a + b)"
| "np_add _ _ = NaN"

primrec np_sum :: "elem list \<Rightarrow> elem" where
  "np_sum [] = Num 0"
| "np_sum (x # xs) = np_add x (np_sum xs)"

text \<open>
  The closed interval from 0 to 1 of the specification: the numbers \<open>q\<close> with
  \<open>0 \<le> q \<le> 1\<close>. Not-a-number is not a member.
\<close>

fun in_unit_interval :: "elem \<Rightarrow> bool" where
  "in_unit_interval (Num q) = (0 \<le> q \<and> q \<le> 1)"
| "in_unit_interval NaN = False"

primrec np_all :: "bool list \<Rightarrow> bool" where
  "np_all [] = True"
| "np_all (b # bs) = (b \<and> np_all bs)"

subsection \<open>Arrays and other objects\<close>

text \<open>
  An array is its shape and its buffer in row-major order. An object is an instance of
  \<^verbatim>\<open>numpy.ndarray\<close> or of one of its subclasses, carrying an array, or any other object
  (a list, a tuple, \<^verbatim>\<open>None\<close>, ...), which has no attribute \<^verbatim>\<open>shape\<close>.
\<close>

record ndarray =
  shape :: "nat list"
  data :: "elem list"

datatype pyobj = Array pyclass ndarray | Other pyclass

fun type_of :: "pyobj \<Rightarrow> pyclass" where
  "type_of (Array c a) = c"
| "type_of (Other c) = c"

subsection \<open>Exceptions\<close>

datatype error = AssertionError string | IndexError | AttributeError

text \<open>
  The four conditions of the specification are the four assertion failures of the
  helpers, told apart by their messages.
\<close>

definition ShapeMismatch :: error where
  "ShapeMismatch = AssertionError ''pred and target don't match''"

definition TypeMismatch :: error where
  "TypeMismatch = AssertionError ''Only numpy.ndarray is supported for computing accuracy''"

definition RangeViolation :: error where
  "RangeViolation =
     AssertionError ''Pred should stand for the predicted probability in range (0, 1)''"

definition SumViolation :: error where
  "SumViolation =
     AssertionError ''Pred should stand for the predicted probability with sum up to 1''"

definition py_assert :: "bool \<Rightarrow> error \<Rightarrow> error + unit" where
  "py_assert c e = (if c then Inr () else Inl e)"

text \<open>Sequencing of two steps, the second of which runs only if the first returns.\<close>

definition and_then :: "error + 'a \<Rightarrow> ('a \<Rightarrow> error + 'b) \<Rightarrow> error + 'b" where
  "and_then r f = (case r of Inl e \<Rightarrow> Inl e | Inr x \<Rightarrow> f x)"

subsection \<open>Attribute access and indexing\<close>

text \<open>\<^verbatim>\<open>x.shape\<close>: the shape of an array, \<^verbatim>\<open>AttributeError\<close> on any other object.\<close>

fun get_shape :: "pyobj \<Rightarrow> error + nat list" where
  "get_shape (Array c a) = Inr (shape a)"
| "get_shape (Other c) = Inl AttributeError"

text \<open>\<^verbatim>\<open>t[0]\<close> on a tuple: \<^verbatim>\<open>IndexError\<close> on the empty tuple.\<close>

fun tuple_item0 :: "nat list \<Rightarrow> error + nat" where
  "tuple_item0 [] = Inl IndexError"
| "tuple_item0 (n # ns) = Inr n"

text \<open>\<^verbatim>\<open>x.shape[0]\<close>, the leading dimension.\<close>

definition leading_dim :: "pyobj \<Rightarrow> error + nat" where
  "leading_dim x = and_then (get_shape x) tuple_item0"

text \<open>
  \<^verbatim>\<open>a[0]\<close> on an array: \<^verbatim>\<open>IndexError\<close> on a zero-dimensional array and on an array whose
  first axis has size 0; otherwise the sub-array at index 0 of the first axis, whose
  shape is the remaining axes and whose buffer is the first block of the buffer.
\<close>

definition first_row :: "ndarray \<Rightarrow> elem list" where
  "first_row a = take (prod_list (tl (shape a))) (data a)"

definition getitem0 :: "ndarray \<Rightarrow> error + ndarray" where
  "getitem0 a =
     (case shape a of
        [] \<Rightarrow> Inl IndexError
      | n # rest \<Rightarrow>
          if n = 0 then Inl IndexError
          else Inr \<lparr>shape = rest, data = first_row a\<rparr>)"

section \<open>The static validation helpers\<close>

text \<open>
  \<^verbatim>\<open>assert pred.shape[0] == target.shape[0], "pred and target don't match"\<close>
\<close>

definition check_match :: "pyobj \<Rightarrow> pyobj \<Rightarrow> error + unit" where
  "check_match pred target =
     and_then (leading_dim pred) (\<lambda>m.
     and_then (leading_dim target) (\<lambda>n.
     py_assert (m = n) ShapeMismatch))"

text \<open>
  \<^verbatim>\<open>assert type(pred) == np.ndarray and type(target) == np.ndarray, "Only ..."\<close>
\<close>

definition check_type :: "pyobj \<Rightarrow> pyobj \<Rightarrow> error + unit" where
  "check_type pred target =
     py_assert (type_of pred = ndarray_cls \<and> type_of target = ndarray_cls) TypeMismatch"

text \<open>
  \<^verbatim>\<open>assert np.all(0 <= pred) and np.all(pred <= 1), "Pred should ..."\<close>
\<close>

definition check_pred_range :: "ndarray \<Rightarrow> error + unit" where
  "check_pred_range pred =
     py_assert (np_all (map (\<lambda>x. np_le (Num 0) x) (data pred))
                \<and> np_all (map (\<lambda>x. np_le x (Num 1)) (data pred)))
       RangeViolation"

text \<open>
  \<^verbatim>\<open>assert pred[0].sum() <= 1, "Pred should ..."\<close>
\<close>

definition check_pred_sum :: "ndarray \<Rightarrow> error + unit" where
  "check_pred_sum pred =
     and_then (getitem0 pred) (\<lambda>row.
     py_assert (np_le (np_sum (data row)) (Num 1)) SumViolation)"

section \<open>Metric instances\<close>

text \<open>
  \<^verbatim>\<open>reset\<close>, \<^verbatim>\<open>compute\<close>, \<^verbatim>\<open>update\<close> and \<^verbatim>\<open>accumulate\<close> are abstract: a variant supplies
  them. Each is a function of the attributes of the instance that returns its outcome
  (a value or the exception raised) and the attributes it leaves behind; an exception
  does not undo what the method did before raising. \<^verbatim>\<open>update\<close> is declared as
  \<^verbatim>\<open>update(self, n=1)\<close>.
\<close>

record ('st, 'v) variant =
  reset :: "'st \<Rightarrow> (error + unit) \<times> 'st"
  compute :: "pyobj \<Rightarrow> pyobj \<Rightarrow> 'st \<Rightarrow> (error + 'v) \<times> 'st"
  update :: "int \<Rightarrow> 'st \<Rightarrow> (error + unit) \<times> 'st"
  accumulate :: "'st \<Rightarrow> (error + 'v) \<times> 'st"

text \<open>
  The state of an instance: its attributes, and the calls of abstract methods that the
  code of the base class has made on it, oldest first.
\<close>

datatype call = CallReset | CallCompute pyobj pyobj | CallUpdate int | CallAccumulate

record 'st metric_state =
  attrs :: 'st
  calls :: "call list"

text \<open>\<^verbatim>\<open>self.reset()\<close>, \<^verbatim>\<open>self.compute(pred, target)\<close> and \<^verbatim>\<open>self.update(n)\<close>.\<close>

definition self_reset ::
  "('st, 'v) variant \<Rightarrow> 'st metric_state \<Rightarrow> (error + unit) \<times> 'st metric_state" where
  "self_reset m s =
     (case reset m (attrs s) of
        (r, a) \<Rightarrow> (r, \<lparr>attrs = a, calls = calls s @ [CallReset]\<rparr>))"



text \<open>
  \<^verbatim>\<open>__init__\<close>: \<^verbatim>\<open>self.reset()\<close>. The argument is the state of the object as the
  constructor receives it.
\<close>

definition BaseMetric_init ::
  "('st, 'v) variant \<Rightarrow> 'st metric_state \<Rightarrow> (error + unit) \<times> 'st metric_state" where
  "BaseMetric_init m s =
     (case self_reset m s of
        (Inl e, s1) \<Rightarrow> (Inl e, s1)
      | (Inr u, s1) \<Rightarrow> (Inr (), s1))"

text \<open>
  The body of \<^verbatim>\<open>compute\<close> in the base class, which a variant reaches through
  \<^verbatim>\<open>super().compute(pred, target)\<close>: the two checks, then \<^verbatim>\<open>pass\<close>.
\<close>

definition BaseMetric_compute ::
  "pyobj \<Rightarrow> pyobj \<Rightarrow> 'st metric_state \<Rightarrow> (error + unit) \<times> 'st metric_state" where
  "BaseMetric_compute pred target s =
     (case check_type pred target of
        Inl e \<Rightarrow> (Inl e, s)
      | Inr u \<Rightarrow>
          (case check_match pred target of
             Inl e \<Rightarrow> (Inl e, s)
           | Inr u \<Rightarrow> (Inr (), s)))"


section \<open>Properties of the validation helpers\<close>

text \<open>
  C4: \<open>check_type\<close> raises the type mismatch exactly when the class of \<open>pred\<close> or the
  class of \<open>target\<close> is not \<^verbatim>\<open>numpy.ndarray\<close>, and returns normally otherwise.
\<close>

theorem check_type_raises_iff:
  "(check_type pred target = Inl TypeMismatch
      \<longleftrightarrow> type_of pred \<noteq> ndarray_cls \<or> type_of target \<noteq> ndarray_cls)
   \<and> (check_type pred target = Inr ()
      \<longleftrightarrow> type_of pred = ndarray_cls \<and> type_of target = ndarray_cls)"
  by (simp add: check_type_def py_assert_def)

theorem check_type_raises_iff_witness:
  "check_type (Other list_cls) (Array ndarray_cls \<lparr>shape = [1], data = [Num 0]\<rparr>)
     = Inl TypeMismatch
   \<and> check_type (Array ndarray_cls \<lparr>shape = [1, 2], data = [Num (7 / 10), Num (3 / 10)]\<rparr>)
        (Array ndarray_cls \<lparr>shape = [1], data = [Num 0]\<rparr>) = Inr ()"
  using
    check_type_raises_iff [of "Other list_cls"
      "Array ndarray_cls \<lparr>shape = [1], data = [Num 0]\<rparr>"]
    check_type_raises_iff
      [of "Array ndarray_cls \<lparr>shape = [1, 2], data = [Num (7 / 10), Num (3 / 10)]\<rparr>"
        "Array ndarray_cls \<lparr>shape = [1], data = [Num 0]\<rparr>"]
  by (simp add: list_cls_def ndarray_cls_def)

text \<open>
  C8: the comparison is on the class itself. An argument whose class is a proper
  subclass of \<^verbatim>\<open>numpy.ndarray\<close>, such as \<^verbatim>\<open>numpy.matrix\<close>, makes \<open>check_type\<close> raise the
  type mismatch, in either argument position and whatever the other argument is.
\<close>

theorem check_type_rejects_proper_subclass:
  assumes "issubclass (type_of x) ndarray_cls" and "type_of x \<noteq> ndarray_cls"
  shows "check_type x y = Inl TypeMismatch \<and> check_type y x = Inl TypeMismatch"
  using assms(2) by (simp add: check_type_def py_assert_def)

theorem check_type_rejects_proper_subclass_witness:
  "issubclass matrix_cls ndarray_cls
   \<and> matrix_cls \<noteq> ndarray_cls
   \<and> check_type (Array matrix_cls \<lparr>shape = [1, 2], data = [Num (7 / 10), Num (3 / 10)]\<rparr>)
        (Array ndarray_cls \<lparr>shape = [1], data = [Num 0]\<rparr>) = Inl TypeMismatch
   \<and> check_type (Array ndarray_cls \<lparr>shape = [1], data = [Num 0]\<rparr>)
        (Array matrix_cls \<lparr>shape = [1, 2], data = [Num (7 / 10), Num (3 / 10)]\<rparr>)
       = Inl TypeMismatch"
proof -
  have sub: "issubclass matrix_cls ndarray_cls"
    by (simp add: matrix_cls_def ndarray_cls_def object_cls_def)
  have ne: "matrix_cls \<noteq> ndarray_cls"
    by (simp add: matrix_cls_def ndarray_cls_def)
  show ?thesis
    using sub ne
      check_type_rejects_proper_subclass
        [of "Array matrix_cls \<lparr>shape = [1, 2], data = [Num (7 / 10), Num (3 / 10)]\<rparr>"
          "Array ndarray_cls \<lparr>shape = [1], data = [Num 0]\<rparr>"]
    by simp
qed

lemma leading_dim_Inr_iff:
  "leading_dim x = Inr n \<longleftrightarrow> (\<exists>c a rest. x = Array c a \<and> shape a = n # rest)"
proof (cases x)
  case (Array c a)
  then show ?thesis
    by (cases "shape a") (simp_all add: leading_dim_def and_then_def)
next
  case (Other c)
  then show ?thesis
    by (simp add: leading_dim_def and_then_def)
qed

lemma leading_dim_no_assertion: "leading_dim x \<noteq> Inl (AssertionError msg)"
proof (cases x)
  case (Array c a)
  then show ?thesis
    by (cases "shape a") (simp_all add: leading_dim_def and_then_def)
next
  case (Other c)
  then show ?thesis
    by (simp add: leading_dim_def and_then_def)
qed

text \<open>
  C5: \<open>check_match\<close> raises the shape mismatch exactly when \<open>pred\<close> and \<open>target\<close> both
  have a leading dimension and the two differ; it returns normally exactly when both
  have the same leading dimension.
\<close>

theorem check_match_raises_iff:
  "(check_match pred target = Inl ShapeMismatch
      \<longleftrightarrow> (\<exists>m n. leading_dim pred = Inr m \<and> leading_dim target = Inr n \<and> m \<noteq> n))
   \<and> (check_match pred target = Inr ()
      \<longleftrightarrow> (\<exists>n. leading_dim pred = Inr n \<and> leading_dim target = Inr n))"
proof -
  have noA: "leading_dim pred \<noteq> Inl ShapeMismatch" "leading_dim target \<noteq> Inl ShapeMismatch"
    by (simp_all add: ShapeMismatch_def leading_dim_no_assertion)
  show ?thesis
  proof (cases "leading_dim pred")
    case (Inl e)
    with noA show ?thesis
      by (auto simp: check_match_def and_then_def)
  next
    case m: (Inr m)
    show ?thesis
    proof (cases "leading_dim target")
      case (Inl e)
      with m noA show ?thesis
        by (auto simp: check_match_def and_then_def)
    next
      case (Inr n)
      with m show ?thesis
        by (auto simp: check_match_def and_then_def py_assert_def)
    qed
  qed
qed

theorem check_match_raises_iff_witness:
  "check_match
     (Array ndarray_cls \<lparr>shape = [2, 3], data = replicate 6 (Num (1 / 3))\<rparr>)
     (Array ndarray_cls \<lparr>shape = [3], data = [Num 0, Num 1, Num 2]\<rparr>) = Inl ShapeMismatch
   \<and> check_match
     (Array ndarray_cls \<lparr>shape = [1, 2], data = [Num (7 / 10), Num (3 / 10)]\<rparr>)
     (Array ndarray_cls \<lparr>shape = [1], data = [Num 0]\<rparr>) = Inr ()"
  using
    check_match_raises_iff
      [of "Array ndarray_cls \<lparr>shape = [2, 3], data = replicate 6 (Num (1 / 3))\<rparr>"
        "Array ndarray_cls \<lparr>shape = [3], data = [Num 0, Num 1, Num 2]\<rparr>"]
    check_match_raises_iff
      [of "Array ndarray_cls \<lparr>shape = [1, 2], data = [Num (7 / 10), Num (3 / 10)]\<rparr>"
        "Array ndarray_cls \<lparr>shape = [1], data = [Num 0]\<rparr>"]
  by (simp add: leading_dim_def and_then_def)

lemma np_all_in_unit_interval:
  "np_all (map (\<lambda>x. np_le (Num 0) x) xs) \<and> np_all (map (\<lambda>x. np_le x (Num 1)) xs)
     \<longleftrightarrow> list_all in_unit_interval xs"
proof (induction xs)
  case Nil
  show ?case by simp
next
  case (Cons x xs)
  then show ?case by (cases x) auto
qed

text \<open>
  C6: \<open>check_pred_range\<close> raises the range violation exactly when some element of
  \<open>pred\<close> is not in the closed interval from 0 to 1, and returns normally exactly when
  every element is in it.
\<close>

theorem check_pred_range_raises_iff:
  "(check_pred_range pred = Inl RangeViolation
      \<longleftrightarrow> (\<exists>x \<in> set (data pred). \<not> in_unit_interval x))
   \<and> (check_pred_range pred = Inr ()
      \<longleftrightarrow> (\<forall>x \<in> set (data pred). in_unit_interval x))"
  unfolding check_pred_range_def np_all_in_unit_interval
  by (auto simp: py_assert_def list_all_iff)

theorem check_pred_range_raises_iff_witness:
  "check_pred_range \<lparr>shape = [1, 2], data = [Num (6 / 5), Num (- 1 / 5)]\<rparr> = Inl RangeViolation
   \<and> check_pred_range \<lparr>shape = [1, 2], data = [Num (7 / 10), Num (3 / 10)]\<rparr> = Inr ()"
  using
    check_pred_range_raises_iff [of "\<lparr>shape = [1, 2], data = [Num (6 / 5), Num (- 1 / 5)]\<rparr>"]
    check_pred_range_raises_iff [of "\<lparr>shape = [1, 2], data = [Num (7 / 10), Num (3 / 10)]\<rparr>"]
  by simp

text \<open>
  C10: on an array with no element \<open>check_pred_range\<close> returns normally: there is
  nothing for the two comparisons to reject.
\<close>

theorem check_pred_range_empty:
  "data pred = [] \<Longrightarrow> check_pred_range pred = Inr ()"
  by (simp add: check_pred_range_def py_assert_def)

theorem check_pred_range_empty_witness:
  "data \<lparr>shape = [0, 3], data = []\<rparr> = []
   \<and> check_pred_range \<lparr>shape = [0, 3], data = []\<rparr> = Inr ()"
  using check_pred_range_empty [of "\<lparr>shape = [0, 3], data = []\<rparr>"]
  by simp

section \<open>The sum check\<close>


lemma getitem0_Suc:
  "shape a = Suc n # rest \<Longrightarrow> getitem0 a = Inr \<lparr>shape = rest, data = first_row a\<rparr>"
  by (simp add: getitem0_def)

lemma getitem0_IndexError_iff:
  "getitem0 a = Inl IndexError \<longleftrightarrow> \<not> (\<exists>n rest. shape a = Suc n # rest)"
proof (cases "shape a")
  case Nil
  then show ?thesis by (simp add: getitem0_def)
next
  case (Cons k rest)
  then show ?thesis by (cases k) (simp_all add: getitem0_def)
qed

lemma check_pred_sum_cases:
  "check_pred_sum pred =
     (if \<exists>n rest. shape pred = Suc n # rest
      then py_assert (np_le (np_sum (first_row pred)) (Num 1)) SumViolation
      else Inl IndexError)"
proof (cases "\<exists>n rest. shape pred = Suc n # rest")
  case True
  then obtain n rest where "shape pred = Suc n # rest" by blast
  then have "getitem0 pred = Inr \<lparr>shape = rest, data = first_row pred\<rparr>"
    by (rule getitem0_Suc)
  with True show ?thesis
    by (simp add: check_pred_sum_def and_then_def)
next
  case False
  then have "getitem0 pred = Inl IndexError"
    by (simp add: getitem0_IndexError_iff)
  with False show ?thesis
    by (simp add: check_pred_sum_def and_then_def)
qed




text \<open>
  C9: on a batch whose leading dimension is 0 the access \<^verbatim>\<open>pred[0]\<close> raises
  \<^verbatim>\<open>IndexError\<close>, which is not the sum violation. \<open>check_pred_sum\<close> gets as far as
  its assertion (and then returns or raises the sum violation) exactly when \<open>pred\<close> has a
  leading dimension of at least 1.
\<close>

theorem check_pred_sum_empty_batch:
  "(shape pred = 0 # rest
      \<longrightarrow> check_pred_sum pred = Inl IndexError \<and> check_pred_sum pred \<noteq> Inl SumViolation)
   \<and> (check_pred_sum pred = Inr () \<or> check_pred_sum pred = Inl SumViolation
      \<longleftrightarrow> (\<exists>n rest. shape pred = n # rest \<and> 1 \<le> n))"
proof -
  have eq: "(\<exists>n rest. shape pred = n # rest \<and> 1 \<le> n) \<longleftrightarrow> (\<exists>n rest. shape pred = Suc n # rest)"
    by (metis Suc_le_eq One_nat_def Suc_pred' le_imp_less_Suc less_Suc_eq_0_disj nat.simps(3)
        not_less_eq_eq zero_less_Suc)
  show ?thesis
    unfolding eq
    by (auto simp: check_pred_sum_cases py_assert_def SumViolation_def)
qed

theorem check_pred_sum_empty_batch_witness:
  "shape \<lparr>shape = [0, 3], data = []\<rparr> = 0 # [3]
   \<and> check_pred_sum \<lparr>shape = [0, 3], data = []\<rparr> = Inl IndexError
   \<and> check_pred_sum \<lparr>shape = [0, 3], data = []\<rparr> \<noteq> Inl SumViolation"
  using check_pred_sum_empty_batch [of "\<lparr>shape = [0, 3], data = []\<rparr>" "[3]"]
  by (simp add: SumViolation_def)

section \<open>The instance methods of the base class\<close>

lemma check_match_Array_shape:
  "shape a = shape b \<Longrightarrow> check_match (Array c a) target = check_match (Array c b) target"
  by (simp add: check_match_def leading_dim_def)

lemma check_type_Array:
  "check_type (Array c a) target = check_type (Array c b) target"
  by (simp add: check_type_def)

text \<open>
  C3: the body of \<open>compute\<close> in the base class leaves the state of the instance as it
  found it, whatever the outcome. It returns normally exactly when the type check and
  the shape check both pass; a failure of the type check, or of the shape check after
  the type check has passed, is the outcome of the call. The elements of \<open>pred\<close> play
  no part: two arrays of the same class and shape get the same outcome, so neither the
  range check nor the sum check is made.
\<close>

theorem BaseMetric_compute_validation:
  "snd (BaseMetric_compute pred target s) = s
   \<and> (fst (BaseMetric_compute pred target s) = Inr ()
        \<longleftrightarrow> check_type pred target = Inr () \<and> check_match pred target = Inr ())
   \<and> (check_type pred target = Inl e
        \<longrightarrow> BaseMetric_compute pred target s = (Inl e, s))
   \<and> (check_type pred target = Inr () \<and> check_match pred target = Inl e
        \<longrightarrow> BaseMetric_compute pred target s = (Inl e, s))
   \<and> (\<forall>c a b. shape a = shape b
        \<longrightarrow> BaseMetric_compute (Array c a) target s = BaseMetric_compute (Array c b) target s)"
proof (intro conjI allI impI)
  show "snd (BaseMetric_compute pred target s) = s"
    by (simp add: BaseMetric_compute_def split: sum.splits)
  show "fst (BaseMetric_compute pred target s) = Inr ()
        \<longleftrightarrow> check_type pred target = Inr () \<and> check_match pred target = Inr ()"
    by (simp add: BaseMetric_compute_def split: sum.splits)
  show "BaseMetric_compute pred target s = (Inl e, s)" if "check_type pred target = Inl e"
    using that by (simp add: BaseMetric_compute_def)
  show "BaseMetric_compute pred target s = (Inl e, s)"
    if "check_type pred target = Inr () \<and> check_match pred target = Inl e"
    using that by (simp add: BaseMetric_compute_def)
next
  fix c and a b :: ndarray
  assume "shape a = shape b"
  then have cm: "check_match (Array c a) target = check_match (Array c b) target"
    by (rule check_match_Array_shape)
  have ct: "check_type (Array c a) target = check_type (Array c b) target"
    by (rule check_type_Array)
  show "BaseMetric_compute (Array c a) target s = BaseMetric_compute (Array c b) target s"
    unfolding BaseMetric_compute_def cm ct by (rule refl)
qed

theorem BaseMetric_compute_validation_witness:
  "BaseMetric_compute
     (Array ndarray_cls \<lparr>shape = [1, 2], data = [Num (6 / 5), Num (6 / 5)]\<rparr>)
     (Array ndarray_cls \<lparr>shape = [1], data = [Num 0]\<rparr>)
     \<lparr>attrs = (5::int), calls = [CallReset]\<rparr>
     = (Inr (), \<lparr>attrs = 5, calls = [CallReset]\<rparr>)
   \<and> check_pred_range \<lparr>shape = [1, 2], data = [Num (6 / 5), Num (6 / 5)]\<rparr>
     = Inl RangeViolation
   \<and> check_pred_sum \<lparr>shape = [1, 2], data = [Num (6 / 5), Num (6 / 5)]\<rparr>
     = Inl SumViolation
   \<and> BaseMetric_compute
     (Other list_cls)
     (Array ndarray_cls \<lparr>shape = [1], data = [Num 0]\<rparr>)
     \<lparr>attrs = (5::int), calls = [CallReset]\<rparr>
     = (Inl TypeMismatch, \<lparr>attrs = 5, calls = [CallReset]\<rparr>)
   \<and> BaseMetric_compute
     (Array ndarray_cls \<lparr>shape = [2, 3], data = replicate 6 (Num (1 / 3))\<rparr>)
     (Array ndarray_cls \<lparr>shape = [3], data = [Num 0, Num 1, Num 2]\<rparr>)
     \<lparr>attrs = (5::int), calls = [CallReset]\<rparr>
     = (Inl ShapeMismatch, \<lparr>attrs = 5, calls = [CallReset]\<rparr>)"
proof -
  have t1: "check_type
     (Array ndarray_cls \<lparr>shape = [1, 2], data = [Num (6 / 5), Num (6 / 5)]\<rparr>)
     (Array ndarray_cls \<lparr>shape = [1], data = [Num 0]\<rparr>) = Inr ()"
    by (simp add: check_type_def py_assert_def)
  have m1: "check_match
     (Array ndarray_cls \<lparr>shape = [1, 2], data = [Num (6 / 5), Num (6 / 5)]\<rparr>)
     (Array ndarray_cls \<lparr>shape = [1], data = [Num 0]\<rparr>) = Inr ()"
    by (simp add: check_match_def leading_dim_def and_then_def py_assert_def)
  have t2: "check_type (Other list_cls)
     (Array ndarray_cls \<lparr>shape = [1], data = [Num 0]\<rparr>) = Inl TypeMismatch"
    by (simp add: check_type_def py_assert_def list_cls_def ndarray_cls_def)
  have t3: "check_type
     (Array ndarray_cls \<lparr>shape = [2, 3], data = replicate 6 (Num (1 / 3))\<rparr>)
     (Array ndarray_cls \<lparr>shape = [3], data = [Num 0, Num 1, Num 2]\<rparr>) = Inr ()"
    by (simp add: check_type_def py_assert_def)
  have m3: "check_match
     (Array ndarray_cls \<lparr>shape = [2, 3], data = replicate 6 (Num (1 / 3))\<rparr>)
     (Array ndarray_cls \<lparr>shape = [3], data = [Num 0, Num 1, Num 2]\<rparr>) = Inl ShapeMismatch"
    by (simp add: check_match_def leading_dim_def and_then_def py_assert_def)
  have r: "check_pred_range \<lparr>shape = [1, 2], data = [Num (6 / 5), Num (6 / 5)]\<rparr>
     = Inl RangeViolation"
    by (simp add: check_pred_range_def py_assert_def)
  have su: "check_pred_sum \<lparr>shape = [1, 2], data = [Num (6 / 5), Num (6 / 5)]\<rparr>
     = Inl SumViolation"
    by (simp add: check_pred_sum_def getitem0_def first_row_def and_then_def py_assert_def)
  note v1 = BaseMetric_compute_validation
        [of "Array ndarray_cls \<lparr>shape = [1, 2], data = [Num (6 / 5), Num (6 / 5)]\<rparr>"
          "Array ndarray_cls \<lparr>shape = [1], data = [Num 0]\<rparr>"
          "\<lparr>attrs = (5::int), calls = [CallReset]\<rparr>"]
  note v2 = BaseMetric_compute_validation
        [of "Other list_cls"
          "Array ndarray_cls \<lparr>shape = [1], data = [Num 0]\<rparr>"
          "\<lparr>attrs = (5::int), calls = [CallReset]\<rparr>" TypeMismatch]
  note v3 = BaseMetric_compute_validation
        [of "Array ndarray_cls \<lparr>shape = [2, 3], data = replicate 6 (Num (1 / 3))\<rparr>"
          "Array ndarray_cls \<lparr>shape = [3], data = [Num 0, Num 1, Num 2]\<rparr>"
          "\<lparr>attrs = (5::int), calls = [CallReset]\<rparr>" ShapeMismatch]
  have c1: "BaseMetric_compute
     (Array ndarray_cls \<lparr>shape = [1, 2], data = [Num (6 / 5), Num (6 / 5)]\<rparr>)
     (Array ndarray_cls \<lparr>shape = [1], data = [Num 0]\<rparr>)
     \<lparr>attrs = (5::int), calls = [CallReset]\<rparr>
     = (Inr (), \<lparr>attrs = 5, calls = [CallReset]\<rparr>)"
    using v1 [THEN conjunct1] v1 [THEN conjunct2, THEN conjunct1] t1 m1
    by (simp add: prod_eq_iff)
  have c2: "BaseMetric_compute
     (Other list_cls)
     (Array ndarray_cls \<lparr>shape = [1], data = [Num 0]\<rparr>)
     \<lparr>attrs = (5::int), calls = [CallReset]\<rparr>
     = (Inl TypeMismatch, \<lparr>attrs = 5, calls = [CallReset]\<rparr>)"
    using v2 [THEN conjunct2, THEN conjunct2, THEN conjunct1] t2
    by (rule mp)
  have c3: "BaseMetric_compute
     (Array ndarray_cls \<lparr>shape = [2, 3], data = replicate 6 (Num (1 / 3))\<rparr>)
     (Array ndarray_cls \<lparr>shape = [3], data = [Num 0, Num 1, Num 2]\<rparr>)
     \<lparr>attrs = (5::int), calls = [CallReset]\<rparr>
     = (Inl ShapeMismatch, \<lparr>attrs = 5, calls = [CallReset]\<rparr>)"
    using v3 [THEN conjunct2, THEN conjunct2, THEN conjunct2, THEN conjunct1]
      conjI [OF t3 m3]
    by (rule mp)
  from c1 r su c2 c3 show ?thesis
    by (intro conjI)
qed



text \<open>
  C7: the constructor makes one call of an abstract method, \<open>reset\<close>, and nothing
  else: its outcome is the outcome of \<open>reset\<close>, and the state of the constructed
  instance is the state that the call of \<open>reset\<close> leaves.
\<close>

theorem BaseMetric_init_resets_once:
  "BaseMetric_init m s = self_reset m s
   \<and> fst (BaseMetric_init m s) = fst (reset m (attrs s))
   \<and> attrs (snd (BaseMetric_init m s)) = snd (reset m (attrs s))
   \<and> calls (snd (BaseMetric_init m s)) = calls s @ [CallReset]
   \<and> count_list (calls (snd (BaseMetric_init m s))) CallReset
       = count_list (calls s) CallReset + 1"
proof -
  obtain r a where ra: "reset m (attrs s) = (r, a)"
    by (cases "reset m (attrs s)")
  then have "BaseMetric_init m s = (r, \<lparr>attrs = a, calls = calls s @ [CallReset]\<rparr>)"
    by (cases r) (simp_all add: BaseMetric_init_def self_reset_def)
  with ra show ?thesis
    by (simp add: self_reset_def)
qed

theorem BaseMetric_init_resets_once_witness:
  "BaseMetric_init
     \<lparr>reset = (\<lambda>a. (Inr (), 0)),
      compute = (\<lambda>p t a. (Inr (7::nat), a)),
      update = (\<lambda>n a. (Inr (), a + n)),
      accumulate = (\<lambda>a. (Inr 0, a))\<rparr>
     \<lparr>attrs = (42::int), calls = []\<rparr>
   = (Inr (), \<lparr>attrs = 0, calls = [CallReset]\<rparr>)"
  using
    BaseMetric_init_resets_once
      [of "\<lparr>reset = (\<lambda>a. (Inr (), 0)),
            compute = (\<lambda>p t a. (Inr (7::nat), a)),
            update = (\<lambda>n a. (Inr (), a + n)),
            accumulate = (\<lambda>a. (Inr 0, a))\<rparr>"
        "\<lparr>attrs = (42::int), calls = []\<rparr>"]
  by (simp add: self_reset_def)

end
